theory Spec2Isabelle
  imports Main
begin

section \<open>Values of the client\<close>

text \<open>
  The exceptions that \<^verbatim>\<open>insights/client/client.py\<close> raises, catches or lets through.
  The four connection exceptions are imported from the connection module; they are
  distinct classes and none of them is caught by \<^verbatim>\<open>except RuntimeError\<close>.
  \<open>AttributeError\<close> is what Python raises for an attribute read on \<open>None\<close>,
  \<open>ValueError\<close> what \<^verbatim>\<open>json.loads\<close> raises on text that is not JSON.
\<close>

datatype exn =
    TimeoutException
  | PayloadTooLargeException
  | UnregisteredException
  | InvalidContentTypeException
  | RuntimeError string
  | AttributeError string
  | ValueError string
  | OtherError string

text \<open>
  The fields of the configuration object that the registration, unregistration and
  upload functions read. \<open>retries\<close> is a Python integer; \<open>username\<close> and
  \<open>password\<close> may be \<open>None\<close>.
\<close>

record config =
  legacy_upload :: bool
  reregister :: bool
  register :: bool
  force :: bool
  authmethod :: string
  username :: "string option"
  password :: "string option"
  retries :: int

text \<open>
  The response object returned by \<^verbatim>\<open>pconn.upload_archive\<close>. The client tests its
  truth value (\<^verbatim>\<open>if not upload\<close>), reads \<^verbatim>\<open>upload.status_code\<close> and, in the legacy
  upload, \<^verbatim>\<open>upload.text\<close>. The class is declared outside the client, so its truth value
  is a field of the model: \<open>ok\<close>.
\<close>

record response =
  ok :: bool
  status_code :: int
  resp_text :: string

text \<open>
  The connection object \<^verbatim>\<open>pconn\<close>, seen from the client: what each call returns or
  raises. \<open>pconn_upload_archive p k\<close> is the outcome of the call number \<open>k\<close>
  (from 0) of \<^verbatim>\<open>pconn.upload_archive\<close>; \<open>registration_check p\<close> is the outcome of
  \<^verbatim>\<open>registration_check(pconn)\<close>, as the truth value of what it returns.
\<close>

record connection =
  registration_check :: "exn + bool"
  pconn_register :: "exn + unit"
  pconn_unregister :: "exn + bool"
  pconn_upload_archive :: "nat \<Rightarrow> exn + response"

section \<open>The host: marker files and the effects performed\<close>

datatype event =
    RegistrationCheck
  | Register
  | Unregister
  | UploadArchive string string "int option"
  | Sleep
  | WriteRegisteredFile
  | WriteUnregisteredFile
  | DeleteRegisteredFile
  | DeleteUnregisteredFile
  | DeleteMachineIdFile
  | GenerateMachineId bool
  | RemoveScheduling
  | DeleteCacheFiles
  | WriteLastUploadResults string
  | WriteLastUpload

record host =
  registered_file :: bool
  unregistered_file :: bool
  machine_id_file :: bool
  scheduling :: bool
  cache_files :: bool
  last_upload_results_file :: "string option"
  lastupload_file :: bool
  trace :: "event list"

definition emit :: "event \<Rightarrow> host \<Rightarrow> host" where
  "emit e s = s\<lparr>trace := trace s @ [e]\<rparr>"

fun is_upload :: "event \<Rightarrow> bool" where
  "is_upload (UploadArchive tar_file content_type collection_duration) = True"
| "is_upload e = False"

definition attempts :: "event list \<Rightarrow> nat" where
  "attempts evs = length (filter is_upload evs)"

definition sleeps :: "event list \<Rightarrow> nat" where
  "sleeps evs = count_list evs Sleep"

definition new_events :: "host \<Rightarrow> host \<Rightarrow> event list" where
  "new_events s s' = drop (length (trace s)) (trace s')"

text \<open>The two registration markers of a host.\<close>

definition markers :: "host \<Rightarrow> bool \<times> bool" where
  "markers s = (registered_file s, unregistered_file s)"

text \<open>
  Modelled from the spec: \<^verbatim>\<open>write_registered_file\<close> of the utilities module, which is
  not part of the sources at hand. The spec: the registered and unregistered markers are
  mutually exclusive, writing one must remove the other.
\<close>

definition write_registered_file :: "host \<Rightarrow> host" where
  "write_registered_file s =
     emit WriteRegisteredFile (s\<lparr>registered_file := True, unregistered_file := False\<rparr>)"

text \<open>
  Modelled from the spec: \<^verbatim>\<open>write_unregistered_file\<close> of the utilities module, under
  the same invariant of the spec.
\<close>

definition write_unregistered_file :: "host \<Rightarrow> host" where
  "write_unregistered_file s =
     emit WriteUnregisteredFile (s\<lparr>registered_file := False, unregistered_file := True\<rparr>)"

text \<open>
  Modelled from the spec: \<^verbatim>\<open>delete_registered_file\<close> and \<^verbatim>\<open>delete_unregistered_file\<close>
  of the utilities module. The spec: deleting a marker that does not exist is a no-op.
\<close>

definition delete_registered_file :: "host \<Rightarrow> host" where
  "delete_registered_file s = emit DeleteRegisteredFile (s\<lparr>registered_file := False\<rparr>)"

definition delete_unregistered_file :: "host \<Rightarrow> host" where
  "delete_unregistered_file s = emit DeleteUnregisteredFile (s\<lparr>unregistered_file := False\<rparr>)"

text \<open>
  Modelled from the spec: \<^verbatim>\<open>write_to_disk(constants.machine_id_file, delete=True)\<close>
  deletes the persisted machine identity, and \<^verbatim>\<open>generate_machine_id(new)\<close> resolves
  the identity, generating and persisting one when there is none.
\<close>

definition delete_machine_id_file :: "host \<Rightarrow> host" where
  "delete_machine_id_file s = emit DeleteMachineIdFile (s\<lparr>machine_id_file := False\<rparr>)"

definition generate_machine_id :: "bool \<Rightarrow> host \<Rightarrow> host" where
  "generate_machine_id new s = emit (GenerateMachineId new) (s\<lparr>machine_id_file := True\<rparr>)"

text \<open>
  Modelled from the spec: \<^verbatim>\<open>get_scheduler(config).remove_scheduling()\<close> removes any
  scheduled collection, \<^verbatim>\<open>delete_cache_files()\<close> deletes the cached collection state.
\<close>

definition remove_scheduling :: "host \<Rightarrow> host" where
  "remove_scheduling s = emit RemoveScheduling (s\<lparr>scheduling := False\<rparr>)"

definition delete_cache_files :: "host \<Rightarrow> host" where
  "delete_cache_files s = emit DeleteCacheFiles (s\<lparr>cache_files := False\<rparr>)"

text \<open>
  Modelled from the spec: \<^verbatim>\<open>write_to_disk(constants.lastupload_file)\<close> writes the last
  upload timestamp marker. The write of the raw response body to
  \<^verbatim>\<open>constants.last_upload_results_file\<close> is in the client itself.
\<close>

definition write_lastupload_file :: "host \<Rightarrow> host" where
  "write_lastupload_file s = emit WriteLastUpload (s\<lparr>lastupload_file := True\<rparr>)"

definition write_last_upload_results :: "string \<Rightarrow> host \<Rightarrow> host" where
  "write_last_upload_results body s =
     emit (WriteLastUploadResults body) (s\<lparr>last_upload_results_file := Some body\<rparr>)"

section \<open>Registration\<close>

text \<open>Python's truth value of a configuration string: \<open>None\<close> and the empty string are false.\<close>

fun truthy :: "string option \<Rightarrow> bool" where
  "truthy None = False"
| "truthy (Some v) = (v \<noteq> [])"

text \<open>
  \<^verbatim>\<open>_legacy_handle_registration(config, pconn)\<close>. Log calls have no effect on the host and
  are left out. An exception of \<^verbatim>\<open>registration_check\<close> or \<^verbatim>\<open>pconn.register\<close> is not
  caught here and leaves the function.
\<close>

definition legacy_handle_registration :: "config \<Rightarrow> connection \<Rightarrow> host \<Rightarrow> (exn + bool) \<times> host" where
  "legacy_handle_registration config pconn s =
     (let s1 = (if reregister config
                then delete_machine_id_file (delete_unregistered_file (delete_registered_file s))
                else s);
          s2 = generate_machine_id (reregister config) s1;
          s3 = emit RegistrationCheck s2
      in case registration_check pconn of
           Inl e \<Rightarrow> (Inl e, s3)
         | Inr check \<Rightarrow>
             if check then (Inr True, s3)
             else if register config then
               (if authmethod config = ''BASIC'' \<and> \<not> (truthy (username config) \<and> truthy (password config))
                then (Inr False, s3)
                else (case pconn_register pconn of
                        Inl e \<Rightarrow> (Inl e, emit Register s3)
                      | Inr u \<Rightarrow> (Inr True, write_registered_file (emit Register s3))))
             else (Inr False, s3))"

text \<open>
  \<^verbatim>\<open>handle_registration(config, pconn)\<close>: without the legacy protocol the function falls
  off its end and returns \<open>None\<close>.
\<close>

definition handle_registration :: "config \<Rightarrow> connection \<Rightarrow> host \<Rightarrow> (exn + bool option) \<times> host" where
  "handle_registration config pconn s =
     (if legacy_upload config
      then (case legacy_handle_registration config pconn s of
              (Inl e, s') \<Rightarrow> (Inl e, s')
            | (Inr b, s') \<Rightarrow> (Inr (Some b), s'))
      else (Inr None, s))"

section \<open>Unregistration\<close>

text \<open>The local function \<^verbatim>\<open>__cleanup_local_files\<close> of the legacy unregistration.\<close>

definition cleanup_local_files :: "host \<Rightarrow> host" where
  "cleanup_local_files s = delete_cache_files (remove_scheduling (write_unregistered_file s))"

text \<open>
  \<^verbatim>\<open>_legacy_handle_unregistration(config, pconn)\<close>. Only a \<open>RuntimeError\<close> of the
  registration check is caught; with \<open>force\<close> it is answered by the local cleanup and
  \<open>True\<close>, without it the error is raised again.
\<close>

definition legacy_handle_unregistration :: "config \<Rightarrow> connection \<Rightarrow> host \<Rightarrow> (exn + bool) \<times> host" where
  "legacy_handle_unregistration config pconn s =
     (let s1 = emit RegistrationCheck s
      in case registration_check pconn of
           Inl (RuntimeError msg) \<Rightarrow>
             if force config then (Inr True, cleanup_local_files s1)
             else (Inl (RuntimeError msg), s1)
         | Inl e \<Rightarrow> (Inl e, s1)
         | Inr check \<Rightarrow>
             if check then
               (case pconn_unregister pconn of
                  Inl e \<Rightarrow> (Inl e, emit Unregister s1)
                | Inr unreg \<Rightarrow>
                    if unreg then (Inr unreg, cleanup_local_files (emit Unregister s1))
                    else (Inr unreg, emit Unregister s1))
             else (Inr True, cleanup_local_files s1))"

text \<open>\<^verbatim>\<open>handle_unregistration(config, pconn)\<close>: the value returned is \<open>unreg\<close>.\<close>

definition handle_unregistration :: "config \<Rightarrow> connection \<Rightarrow> host \<Rightarrow> (exn + bool) \<times> host" where
  "handle_unregistration config pconn s =
     (if legacy_upload config then legacy_handle_unregistration config pconn s
      else (case pconn_unregister pconn of
              Inl e \<Rightarrow> (Inl e, emit Unregister s)
            | Inr unreg \<Rightarrow>
                if unreg \<or> force config
                then (Inr unreg, delete_cache_files (write_unregistered_file (emit Unregister s)))
                else (Inr unreg, emit Unregister s)))"

section \<open>Upload\<close>

text \<open>
  The \<^verbatim>\<open>for tries in range(config.retries)\<close> loop. One run of the body either falls
  off its end (\<open>Next\<close>: the loop goes on with the next index), leaves the loop
  (\<open>Break\<close>), leaves the function (\<open>Return\<close>) or raises.
\<close>

datatype 'a flow = Next | Break | Return 'a | Raise exn

fun for_range :: "(nat \<Rightarrow> 'st \<Rightarrow> 'a flow \<times> 'st) \<Rightarrow> nat list \<Rightarrow> 'st \<Rightarrow> 'a flow \<times> 'st" where
  "for_range body [] st = (Next, st)"
| "for_range body (tries # rest) st =
     (case body tries st of
        (Next, st') \<Rightarrow> for_range body rest st'
      | (fl, st') \<Rightarrow> (fl, st'))"

text \<open>
  The \<^verbatim>\<open>try\<close> statement around \<^verbatim>\<open>pconn.upload_archive\<close>: a timeout sets
  \<^verbatim>\<open>upload = None\<close>, the two listed exceptions become
  \<^verbatim>\<open>RuntimeError('Upload failed.')\<close>, any other exception is not caught.
\<close>

fun legacy_upload_try :: "exn + response \<Rightarrow> exn + response option" where
  "legacy_upload_try (Inr r) = Inr (Some r)"
| "legacy_upload_try (Inl TimeoutException) = Inr None"
| "legacy_upload_try (Inl PayloadTooLargeException) = Inl (RuntimeError ''Upload failed.'')"
| "legacy_upload_try (Inl UnregisteredException) = Inl (RuntimeError ''Upload failed.'')"
| "legacy_upload_try (Inl e) = Inl e"

fun upload_try :: "exn + response \<Rightarrow> exn + response option" where
  "upload_try (Inr r) = Inr (Some r)"
| "upload_try (Inl TimeoutException) = Inr None"
| "upload_try (Inl PayloadTooLargeException) = Inl (RuntimeError ''Upload failed.'')"
| "upload_try (Inl InvalidContentTypeException) = Inl (RuntimeError ''Upload failed.'')"
| "upload_try (Inl e) = Inl e"

text \<open>The truth value of the variable \<^verbatim>\<open>upload\<close>: \<open>None\<close> is false.\<close>

fun truth :: "response option \<Rightarrow> bool" where
  "truth None = False"
| "truth (Some r) = ok r"

text \<open>
  The block \<^verbatim>\<open>if not upload: ...\<close>, the same in both upload functions. The arguments of
  \<^verbatim>\<open>logger.error\<close> are evaluated first, among them \<^verbatim>\<open>upload.status_code\<close>, which
  raises \<open>AttributeError\<close> when \<^verbatim>\<open>upload\<close> is \<open>None\<close>. When attempts remain the
  block sleeps and ends: control goes on with the statement after the block. On the
  last attempt it raises. \<open>Inr\<close> is the host the following statement starts from.
\<close>

definition if_not_upload :: "config \<Rightarrow> response option \<Rightarrow> nat \<Rightarrow> host \<Rightarrow> exn + host" where
  "if_not_upload config upload tries s =
     (if \<not> truth upload then
        (case upload of
           None \<Rightarrow> Inl (AttributeError ''status_code'')
         | Some r \<Rightarrow>
             if int tries + 1 \<noteq> retries config then Inr (emit Sleep s)
             else Inl (RuntimeError ''Upload failed.''))
      else Inr s)"

text \<open>
  The body of the loop of \<^verbatim>\<open>_legacy_upload\<close>. The loop carries the variable
  \<^verbatim>\<open>api_response\<close> and the host. \<open>loads\<close> stands for \<^verbatim>\<open>json.loads\<close>. The content type
  passed to the connection is the empty string.
\<close>

definition legacy_upload_body ::
  "(string \<Rightarrow> exn + 'j) \<Rightarrow> config \<Rightarrow> connection \<Rightarrow> string \<Rightarrow> int option \<Rightarrow> nat
     \<Rightarrow> 'j option \<times> host \<Rightarrow> 'j option flow \<times> ('j option \<times> host)" where
  "legacy_upload_body loads config pconn tar_file collection_duration tries st =
     (let api_response = fst st;
          s = snd st;
          s1 = emit (UploadArchive tar_file [] collection_duration) s
      in case legacy_upload_try (pconn_upload_archive pconn (attempts (trace s))) of
           Inl e \<Rightarrow> (Raise e, (api_response, s1))
         | Inr upload \<Rightarrow>
             (case if_not_upload config upload tries s1 of
                Inl e \<Rightarrow> (Raise e, (api_response, s1))
              | Inr s2 \<Rightarrow>
                  (case upload of
                     None \<Rightarrow> (Raise (AttributeError ''text''), (api_response, s2))
                   | Some r \<Rightarrow>
                       (case loads (resp_text r) of
                          Inl e \<Rightarrow> (Raise e, (api_response, s2))
                        | Inr j \<Rightarrow>
                            (Break, (Some j,
                               write_lastupload_file
                                 (write_last_upload_results (resp_text r) s2)))))))"

text \<open>\<^verbatim>\<open>_legacy_upload\<close>: after the loop the function returns \<^verbatim>\<open>api_response\<close>.\<close>

definition legacy_upload_fun ::
  "(string \<Rightarrow> exn + 'j) \<Rightarrow> config \<Rightarrow> connection \<Rightarrow> string \<Rightarrow> string \<Rightarrow> int option
     \<Rightarrow> host \<Rightarrow> (exn + 'j option) \<times> host" where
  "legacy_upload_fun loads config pconn tar_file content_type collection_duration s =
     (case for_range (legacy_upload_body loads config pconn tar_file collection_duration)
             [0..<nat (retries config)] (None, s) of
        (Raise e, (api_response, s')) \<Rightarrow> (Inl e, s')
      | (Return v, (api_response, s')) \<Rightarrow> (Inr v, s')
      | (fl, (api_response, s')) \<Rightarrow> (Inr api_response, s'))"

text \<open>The body of the loop of \<^verbatim>\<open>upload\<close>, which ends in \<^verbatim>\<open>return\<close>.\<close>

definition upload_body ::
  "config \<Rightarrow> connection \<Rightarrow> string \<Rightarrow> string \<Rightarrow> int option \<Rightarrow> nat
     \<Rightarrow> host \<Rightarrow> 'j option flow \<times> host" where
  "upload_body config pconn tar_file content_type collection_duration tries s =
     (let s1 = emit (UploadArchive tar_file content_type collection_duration) s
      in case upload_try (pconn_upload_archive pconn (attempts (trace s))) of
           Inl e \<Rightarrow> (Raise e, s1)
         | Inr upload \<Rightarrow>
             (case if_not_upload config upload tries s1 of
                Inl e \<Rightarrow> (Raise e, s1)
              | Inr s2 \<Rightarrow> (Return None, write_lastupload_file s2)))"

text \<open>
  \<^verbatim>\<open>upload(config, pconn, tar_file, content_type, collection_duration)\<close>. When the loop
  ends without \<^verbatim>\<open>return\<close> the function falls off its end and returns \<open>None\<close>.
\<close>

definition upload ::
  "(string \<Rightarrow> exn + 'j) \<Rightarrow> config \<Rightarrow> connection \<Rightarrow> string \<Rightarrow> string \<Rightarrow> int option
     \<Rightarrow> host \<Rightarrow> (exn + 'j option) \<times> host" where
  "upload loads config pconn tar_file content_type collection_duration s =
     (if legacy_upload config
      then legacy_upload_fun loads config pconn tar_file content_type collection_duration s
      else (case for_range (upload_body config pconn tar_file content_type collection_duration)
                   [0..<nat (retries config)] s of
              (Raise e, s') \<Rightarrow> (Inl e, s')
            | (Return v, s') \<Rightarrow> (Inr v, s')
            | (fl, s') \<Rightarrow> (Inr None, s')))"

section \<open>Concrete inputs\<close>

text \<open>A host with no marker, nothing scheduled or cached, and nothing done yet.\<close>

definition host0 :: host where
  "host0 = \<lparr>registered_file = False, unregistered_file = False, machine_id_file = False,
            scheduling = False, cache_files = False, last_upload_results_file = None,
            lastupload_file = False, trace = []\<rparr>"

text \<open>A host that is registered, with a schedule and cached files.\<close>

definition host_registered :: host where
  "host_registered = \<lparr>registered_file = True, unregistered_file = False, machine_id_file = True,
            scheduling = True, cache_files = True, last_upload_results_file = None,
            lastupload_file = False, trace = []\<rparr>"

definition config0 :: config where
  "config0 = \<lparr>legacy_upload = False, reregister = False, register = False, force = False,
              authmethod = ''BASIC'', username = None, password = None, retries = 1\<rparr>"

definition resp :: "bool \<Rightarrow> int \<Rightarrow> response" where
  "resp b code = \<lparr>ok = b, status_code = code, resp_text = ''{}''\<rparr>"

text \<open>A connection whose every call succeeds: registered, and every upload accepted.\<close>

definition pconn0 :: connection where
  "pconn0 = \<lparr>registration_check = Inr True, pconn_register = Inr (),
             pconn_unregister = Inr True, pconn_upload_archive = (\<lambda>k. Inr (resp True 200))\<rparr>"

text \<open>A stand-in for \<^verbatim>\<open>json.loads\<close> that accepts every text.\<close>

definition loads0 :: "string \<Rightarrow> exn + string" where
  "loads0 t = Inr t"

text \<open>Connections whose every upload call raises the same exception.\<close>

definition pconn_timeout :: connection where
  "pconn_timeout = pconn0\<lparr>pconn_upload_archive := (\<lambda>k. Inl TimeoutException)\<rparr>"

definition pconn_too_large :: connection where
  "pconn_too_large = pconn0\<lparr>pconn_upload_archive := (\<lambda>k. Inl PayloadTooLargeException)\<rparr>"

definition pconn_unregistered_exn :: connection where
  "pconn_unregistered_exn = pconn0\<lparr>pconn_upload_archive := (\<lambda>k. Inl UnregisteredException)\<rparr>"

definition pconn_invalid_type :: connection where
  "pconn_invalid_type = pconn0\<lparr>pconn_upload_archive := (\<lambda>k. Inl InvalidContentTypeException)\<rparr>"

text \<open>
  A connection whose first two uploads are answered with status 500 and whose later
  uploads are accepted. In the first the status-500 response object is false, in the
  second it is true.
\<close>

definition pconn_500_500_200 :: connection where
  "pconn_500_500_200 =
     pconn0\<lparr>pconn_upload_archive :=
               (\<lambda>k. if k < 2 then Inr (resp False 500) else Inr (resp True 200))\<rparr>"

definition pconn_truthy_500_500_200 :: connection where
  "pconn_truthy_500_500_200 =
     pconn0\<lparr>pconn_upload_archive :=
               (\<lambda>k. if k < 2 then Inr (resp True 500) else Inr (resp True 200))\<rparr>"

text \<open>A host that carries the unregistered marker.\<close>

definition host_unregistered :: host where
  "host_unregistered = \<lparr>registered_file = False, unregistered_file = True, machine_id_file = True,
            scheduling = False, cache_files = False, last_upload_results_file = None,
            lastupload_file = False, trace = []\<rparr>"

text \<open>
  Legacy configurations that request registration with the BASIC method: the first
  without credentials, the second with both.
\<close>

definition config_register :: config where
  "config_register = config0\<lparr>legacy_upload := True, register := True\<rparr>"

definition config_credentials :: config where
  "config_credentials = config0\<lparr>legacy_upload := True, register := True,
                          username := Some ''admin'', password := Some ''secret''\<rparr>"

text \<open>A connection whose registration check reports the host as not registered.\<close>

definition pconn_unregistered :: connection where
  "pconn_unregistered = pconn0\<lparr>registration_check := Inr False\<rparr>"

section \<open>Auxiliary facts\<close>

lemmas host_defs = emit_def write_registered_file_def write_unregistered_file_def
  delete_registered_file_def delete_unregistered_file_def delete_machine_id_file_def
  generate_machine_id_def remove_scheduling_def delete_cache_files_def
  write_lastupload_file_def write_last_upload_results_def cleanup_local_files_def

lemmas input_defs = host0_def host_registered_def config0_def pconn0_def resp_def loads0_def

lemmas upload_defs = upload_def legacy_upload_fun_def upload_body_def legacy_upload_body_def
  if_not_upload_def

lemma range_retries_Cons: "1 \<le> n \<Longrightarrow> [0..<nat n] = 0 # [1..<nat n]"
  by (simp add: upt_conv_Cons)

lemma new_events_emit: "new_events s (emit e s) = [e]"
  by (simp add: new_events_def emit_def)

text \<open>
  Whatever the retry count, a timeout of the first upload call ends the upload: the
  variable \<^verbatim>\<open>upload\<close> is \<open>None\<close> and the log call reads \<^verbatim>\<open>upload.status_code\<close>.
\<close>

lemma upload_timeout_any_retries:
  assumes "1 \<le> retries config"
    and "pconn_upload_archive pconn (attempts (trace s)) = Inl TimeoutException"
  shows "upload loads config pconn tar_file content_type collection_duration s =
           (Inl (AttributeError ''status_code''),
            emit (UploadArchive tar_file (if legacy_upload config then [] else content_type)
                    collection_duration) s)"
  using assms by (simp add: upload_defs range_retries_Cons Let_def)

section \<open>Upload: timeouts\<close>

text \<open>
  C1. Claimed: with retry count \<open>N \<ge> 1\<close> and an upload call that always times out,
  both upload functions make \<open>N\<close> attempts, sleep \<open>N - 1\<close> times and then fail.
  The code at \<open>N = 2\<close>: after the first timeout the log call reads
  \<^verbatim>\<open>upload.status_code\<close> of \<open>None\<close>; the upload ends with \<open>AttributeError\<close> after one
  attempt and no sleep, in the modern and in the legacy function.
\<close>

theorem upload_timeout_not_retried:
  "(case upload loads0 (config0\<lparr>retries := 2\<rparr>) pconn_timeout ''archive'' ''type'' None host0 of
      (r, s') \<Rightarrow> r = Inl (AttributeError ''status_code'')
                \<and> attempts (trace s') = 1 \<and> sleeps (trace s') = 0)
   \<and> (case upload loads0 (config0\<lparr>retries := 2, legacy_upload := True\<rparr>) pconn_timeout
             ''archive'' ''type'' None host0 of
      (r, s') \<Rightarrow> r = Inl (AttributeError ''status_code'')
                \<and> attempts (trace s') = 1 \<and> sleeps (trace s') = 0)"
  by (simp add: upload_defs input_defs pconn_timeout_def upt_conv_Cons Let_def emit_def
        attempts_def sleeps_def)

section \<open>Upload: responses that report failure\<close>

text \<open>
  C2. Claimed: with three retries and the modern protocol, two status-500 responses
  followed by a success give success, the last-upload marker and two sleeps.
  The code: after the first status-500 response it sleeps once, then goes on to the
  statements after the \<^verbatim>\<open>if not upload\<close> block, writes the last-upload marker and
  returns. One attempt and one sleep are made (no sleep at all when the status-500
  response object counts as true).
\<close>

theorem upload_failed_status_not_retried:
  "(case upload loads0 (config0\<lparr>retries := 3\<rparr>) pconn_500_500_200 ''archive'' ''type'' None host0 of
      (r, s') \<Rightarrow> r = Inr None \<and> lastupload_file s'
                \<and> attempts (trace s') = 1 \<and> sleeps (trace s') = 1)
   \<and> (case upload loads0 (config0\<lparr>retries := 3\<rparr>) pconn_truthy_500_500_200
             ''archive'' ''type'' None host0 of
      (r, s') \<Rightarrow> r = Inr None \<and> lastupload_file s'
                \<and> attempts (trace s') = 1 \<and> sleeps (trace s') = 0)"
  by (simp add: upload_defs input_defs pconn_500_500_200_def pconn_truthy_500_500_200_def
        upt_conv_Cons Let_def host_defs attempts_def sleeps_def)

section \<open>Unregistration with the modern protocol\<close>

text \<open>
  C3, as amended. With the modern protocol and the force flag, when
  \<^verbatim>\<open>pconn.unregister()\<close> returns \<open>unreg\<close>, the unregistered marker is written, the
  cached files are deleted, and the function returns \<open>unreg\<close> itself: failure when the
  remote call failed.
\<close>

theorem handle_unregistration_force:
  assumes "\<not> legacy_upload config" and "force config" and "pconn_unregister pconn = Inr unreg"
  shows "case handle_unregistration config pconn s of
           (r, s') \<Rightarrow> r = Inr unreg \<and> unregistered_file s' \<and> \<not> cache_files s'
                     \<and> new_events s s' = [Unregister, WriteUnregisteredFile, DeleteCacheFiles]"
  using assms by (simp add: handle_unregistration_def host_defs new_events_def)

text \<open>The theorem at a registered host, with the force flag and a failing remote call.\<close>

theorem handle_unregistration_force_witness:
  "\<not> legacy_upload (config0\<lparr>force := True\<rparr>) \<and> force (config0\<lparr>force := True\<rparr>)
   \<and> pconn_unregister (pconn0\<lparr>pconn_unregister := Inr False\<rparr>) = Inr False
   \<and> (case handle_unregistration (config0\<lparr>force := True\<rparr>)
             (pconn0\<lparr>pconn_unregister := Inr False\<rparr>) host_registered of
        (r, s') \<Rightarrow> r = Inr False \<and> unregistered_file s' \<and> \<not> cache_files s'
                  \<and> new_events host_registered s' = [Unregister, WriteUnregisteredFile, DeleteCacheFiles])"
  using handle_unregistration_force [of "config0\<lparr>force := True\<rparr>"
      "pconn0\<lparr>pconn_unregister := Inr False\<rparr>" False host_registered]
  by (simp add: config0_def pconn0_def)

text \<open>
  The claim as first stated, that the forced operation reports success although the
  remote call failed, does not hold: the function returns \<open>False\<close>.
\<close>

theorem handle_unregistration_force_counterexample:
  "force (config0\<lparr>force := True\<rparr>) \<and> \<not> legacy_upload (config0\<lparr>force := True\<rparr>)
   \<and> pconn_unregister (pconn0\<lparr>pconn_unregister := Inr False\<rparr>) = Inr False
   \<and> fst (handle_unregistration (config0\<lparr>force := True\<rparr>)
             (pconn0\<lparr>pconn_unregister := Inr False\<rparr>) host_registered) = Inr False"
  by (simp add: handle_unregistration_def input_defs)

section \<open>Upload: failures that are not retried\<close>

text \<open>
  C4. With more than one retry, when the first upload call raises
  \<open>PayloadTooLargeException\<close> (in either function), \<open>UnregisteredException\<close> (legacy)
  or \<open>InvalidContentTypeException\<close> (modern), the upload ends at once with
  \<^verbatim>\<open>RuntimeError('Upload failed.')\<close>: one attempt, no sleep, and nothing else done on
  the host.
\<close>

theorem upload_fatal_no_retry:
  assumes "1 < retries config"
    and "pconn_upload_archive pconn (attempts (trace s)) = Inl e"
    and "e = PayloadTooLargeException
          \<or> (if legacy_upload config then e = UnregisteredException
              else e = InvalidContentTypeException)"
  shows "case upload loads config pconn tar_file content_type collection_duration s of
           (r, s') \<Rightarrow> r = Inl (RuntimeError ''Upload failed.'')
                     \<and> attempts (new_events s s') = 1 \<and> sleeps (new_events s s') = 0
                     \<and> s' = emit (UploadArchive tar_file
                                    (if legacy_upload config then [] else content_type)
                                    collection_duration) s"
  using assms
  by (auto simp: upload_defs range_retries_Cons Let_def new_events_emit attempts_def sleeps_def
        split: if_splits)

text \<open>
  The theorem with three retries: a payload that is too large and a content type that
  is not valid, with the modern protocol, and an unregistered host, with the legacy
  protocol.
\<close>

theorem upload_fatal_no_retry_witness:
  "1 < retries (config0\<lparr>retries := 3\<rparr>)
   \<and> pconn_upload_archive pconn_too_large (attempts (trace host0)) = Inl PayloadTooLargeException
   \<and> (case upload loads0 (config0\<lparr>retries := 3\<rparr>) pconn_too_large ''archive'' ''type'' None host0 of
        (r, s') \<Rightarrow> r = Inl (RuntimeError ''Upload failed.'')
                  \<and> attempts (new_events host0 s') = 1 \<and> sleeps (new_events host0 s') = 0
                  \<and> s' = emit (UploadArchive ''archive'' ''type'' None) host0)
   \<and> (case upload loads0 (config0\<lparr>retries := 3, legacy_upload := True\<rparr>) pconn_unregistered_exn
             ''archive'' ''type'' None host0 of
        (r, s') \<Rightarrow> r = Inl (RuntimeError ''Upload failed.'')
                  \<and> attempts (new_events host0 s') = 1 \<and> sleeps (new_events host0 s') = 0
                  \<and> s' = emit (UploadArchive ''archive'' [] None) host0)
   \<and> (case upload loads0 (config0\<lparr>retries := 3\<rparr>) pconn_invalid_type
             ''archive'' ''type'' None host0 of
        (r, s') \<Rightarrow> r = Inl (RuntimeError ''Upload failed.'')
                  \<and> attempts (new_events host0 s') = 1 \<and> sleeps (new_events host0 s') = 0
                  \<and> s' = emit (UploadArchive ''archive'' ''type'' None) host0)"
  using upload_fatal_no_retry [where config = "config0\<lparr>retries := 3\<rparr>" and pconn = pconn_invalid_type
      and s = host0 and e = InvalidContentTypeException and loads = loads0
      and tar_file = "''archive''" and content_type = "''type''" and collection_duration = None]
    upload_fatal_no_retry [where config = "config0\<lparr>retries := 3\<rparr>" and pconn = pconn_too_large
      and s = host0 and e = PayloadTooLargeException and loads = loads0
      and tar_file = "''archive''" and content_type = "''type''" and collection_duration = None]
    upload_fatal_no_retry [where config = "config0\<lparr>retries := 3, legacy_upload := True\<rparr>"
      and pconn = pconn_unregistered_exn and s = host0 and e = UnregisteredException
      and loads = loads0 and tar_file = "''archive''" and content_type = "''type''"
      and collection_duration = None]
  by (simp add: config0_def pconn0_def pconn_too_large_def pconn_unregistered_exn_def
        pconn_invalid_type_def)

section \<open>Unregistration with the legacy protocol\<close>

text \<open>
  C5. In the legacy unregistration, when the registration check raises a
  \<open>RuntimeError\<close>: with the force flag the unregistered marker is written, the
  scheduling is removed, the cached files are deleted and the function returns
  \<open>True\<close>; without it the error leaves the function and nothing is done on the host
  but the check itself.
\<close>

theorem legacy_unregistration_check_raises:
  assumes "registration_check pconn = Inl (RuntimeError msg)"
  shows "case legacy_handle_unregistration config pconn s of
           (r, s') \<Rightarrow>
             if force config
             then r = Inr True \<and> unregistered_file s' \<and> \<not> scheduling s' \<and> \<not> cache_files s'
                  \<and> new_events s s' =
                      [RegistrationCheck, WriteUnregisteredFile, RemoveScheduling, DeleteCacheFiles]
             else r = Inl (RuntimeError msg) \<and> s' = emit RegistrationCheck s"
  using assms by (simp add: legacy_handle_unregistration_def host_defs new_events_def Let_def)

text \<open>The theorem at a registered host, with the force flag and without it.\<close>

theorem legacy_unregistration_check_raises_witness:
  "registration_check (pconn0\<lparr>registration_check := Inl (RuntimeError ''down'')\<rparr>)
     = Inl (RuntimeError ''down'')
   \<and> (case legacy_handle_unregistration (config0\<lparr>force := True\<rparr>)
             (pconn0\<lparr>registration_check := Inl (RuntimeError ''down'')\<rparr>) host_registered of
        (r, s') \<Rightarrow> r = Inr True \<and> unregistered_file s' \<and> \<not> scheduling s' \<and> \<not> cache_files s'
                  \<and> new_events host_registered s' =
                      [RegistrationCheck, WriteUnregisteredFile, RemoveScheduling, DeleteCacheFiles])
   \<and> (case legacy_handle_unregistration config0
             (pconn0\<lparr>registration_check := Inl (RuntimeError ''down'')\<rparr>) host_registered of
        (r, s') \<Rightarrow> r = Inl (RuntimeError ''down'') \<and> s' = emit RegistrationCheck host_registered)"
  using legacy_unregistration_check_raises [where
      pconn = "pconn0\<lparr>registration_check := Inl (RuntimeError ''down'')\<rparr>" and msg = "''down''"
      and config = "config0\<lparr>force := True\<rparr>" and s = host_registered]
    legacy_unregistration_check_raises [where
      pconn = "pconn0\<lparr>registration_check := Inl (RuntimeError ''down'')\<rparr>" and msg = "''down''"
      and config = config0 and s = host_registered]
  by (simp add: config0_def pconn0_def)

text \<open>
  C7. In the legacy unregistration, when the registration check returns: if the host is
  registered and \<^verbatim>\<open>pconn.unregister()\<close> returns failure, no marker is written, no
  cached file is deleted and the function returns failure; if the host is not
  registered, the local cleanup is done and the function returns success.
\<close>

theorem legacy_unregistration_check_succeeds:
  "(registration_check pconn = Inr True \<and> pconn_unregister pconn = Inr False \<longrightarrow>
      (case legacy_handle_unregistration config pconn s of
         (r, s') \<Rightarrow> r = Inr False \<and> s' = emit Unregister (emit RegistrationCheck s)
                   \<and> WriteUnregisteredFile \<notin> set (new_events s s')
                   \<and> DeleteCacheFiles \<notin> set (new_events s s')
                   \<and> registered_file s' = registered_file s
                   \<and> unregistered_file s' = unregistered_file s
                   \<and> cache_files s' = cache_files s))
   \<and> (registration_check pconn = Inr False \<longrightarrow>
      (case legacy_handle_unregistration config pconn s of
         (r, s') \<Rightarrow> r = Inr True \<and> unregistered_file s' \<and> \<not> scheduling s' \<and> \<not> cache_files s'
                   \<and> new_events s s' =
                       [RegistrationCheck, WriteUnregisteredFile, RemoveScheduling, DeleteCacheFiles]))"
  by (simp add: legacy_handle_unregistration_def host_defs new_events_def Let_def)

text \<open>
  The theorem at a registered host: once with a failing remote call, once with a check
  that reports the host as not registered.
\<close>

theorem legacy_unregistration_check_succeeds_witness:
  "registration_check (pconn0\<lparr>pconn_unregister := Inr False\<rparr>) = Inr True
   \<and> pconn_unregister (pconn0\<lparr>pconn_unregister := Inr False\<rparr>) = Inr False
   \<and> (case legacy_handle_unregistration config0 (pconn0\<lparr>pconn_unregister := Inr False\<rparr>)
             host_registered of
        (r, s') \<Rightarrow> r = Inr False \<and> registered_file s' \<and> \<not> unregistered_file s' \<and> cache_files s'
                  \<and> new_events host_registered s' = [RegistrationCheck, Unregister])
   \<and> registration_check (pconn0\<lparr>registration_check := Inr False\<rparr>) = Inr False
   \<and> (case legacy_handle_unregistration config0 (pconn0\<lparr>registration_check := Inr False\<rparr>)
             host_registered of
        (r, s') \<Rightarrow> r = Inr True \<and> unregistered_file s' \<and> \<not> scheduling s' \<and> \<not> cache_files s'
                  \<and> new_events host_registered s' =
                      [RegistrationCheck, WriteUnregisteredFile, RemoveScheduling, DeleteCacheFiles])"
  using legacy_unregistration_check_succeeds [where pconn = "pconn0\<lparr>pconn_unregister := Inr False\<rparr>"
      and config = config0 and s = host_registered]
    legacy_unregistration_check_succeeds [where pconn = "pconn0\<lparr>registration_check := Inr False\<rparr>"
      and config = config0 and s = host_registered]
  by (auto simp: config0_def pconn0_def host_registered_def emit_def new_events_def split: prod.splits)

section \<open>Registration with the legacy protocol\<close>

text \<open>
  C6. In the legacy registration without forced re-registration and with explicit
  registration requested, when the registration check reports the host as registered
  the function returns \<open>True\<close> and \<^verbatim>\<open>pconn.register()\<close> is not called.
\<close>

theorem legacy_registration_already_registered:
  assumes "\<not> reregister config" and "register config" and "registration_check pconn = Inr True"
  shows "case legacy_handle_registration config pconn s of
           (r, s') \<Rightarrow> r = Inr True \<and> Register \<notin> set (new_events s s')
                     \<and> new_events s s' = [GenerateMachineId False, RegistrationCheck]"
  using assms by (simp add: legacy_handle_registration_def host_defs new_events_def Let_def)

text \<open>The theorem at a fresh host, with registration requested.\<close>

theorem legacy_registration_already_registered_witness:
  "\<not> reregister (config0\<lparr>register := True\<rparr>) \<and> register (config0\<lparr>register := True\<rparr>)
   \<and> registration_check pconn0 = Inr True
   \<and> (case legacy_handle_registration (config0\<lparr>register := True\<rparr>) pconn0 host0 of
        (r, s') \<Rightarrow> r = Inr True \<and> Register \<notin> set (new_events host0 s')
                  \<and> new_events host0 s' = [GenerateMachineId False, RegistrationCheck])"
  using legacy_registration_already_registered [where config = "config0\<lparr>register := True\<rparr>"
      and pconn = pconn0 and s = host0]
  by (simp add: config0_def pconn0_def)

text \<open>
  C8, as amended. In the legacy registration with explicit registration requested, the
  BASIC method and the username or the password missing, \<^verbatim>\<open>pconn.register()\<close> is not
  called and the registered marker is not written; the function returns \<open>False\<close> when
  the registration check reports the host as not registered, and \<open>True\<close> when it
  reports the host as registered.
\<close>

theorem legacy_registration_missing_credentials:
  assumes "register config" and "authmethod config = ''BASIC''"
    and "\<not> truthy (username config) \<or> \<not> truthy (password config)"
  shows "case legacy_handle_registration config pconn s of
           (r, s') \<Rightarrow> Register \<notin> set (new_events s s')
                     \<and> WriteRegisteredFile \<notin> set (new_events s s')
                     \<and> (registration_check pconn = Inr False \<longrightarrow> r = Inr False)
                     \<and> (registration_check pconn = Inr True \<longrightarrow> r = Inr True)"
  using assms
  by (auto simp: legacy_handle_registration_def host_defs new_events_def Let_def
        split: sum.splits)

text \<open>
  The theorem at a fresh host without credentials: once with a host reported as not
  registered, once with a host reported as registered.
\<close>

theorem legacy_registration_missing_credentials_witness:
  "register config_register \<and> authmethod config_register = ''BASIC''
   \<and> \<not> truthy (username config_register)
   \<and> registration_check pconn_unregistered = Inr False
   \<and> (case legacy_handle_registration config_register pconn_unregistered host0 of
        (r, s') \<Rightarrow> r = Inr False \<and> Register \<notin> set (new_events host0 s')
                  \<and> WriteRegisteredFile \<notin> set (new_events host0 s'))
   \<and> registration_check pconn0 = Inr True
   \<and> (case legacy_handle_registration config_register pconn0 host0 of
        (r, s') \<Rightarrow> r = Inr True \<and> Register \<notin> set (new_events host0 s')
                  \<and> WriteRegisteredFile \<notin> set (new_events host0 s'))"
  using legacy_registration_missing_credentials [where config = config_register
      and pconn = pconn_unregistered and s = host0]
    legacy_registration_missing_credentials [where config = config_register
      and pconn = pconn0 and s = host0]
  by (auto simp: config_register_def pconn_unregistered_def config0_def pconn0_def
        split: prod.splits)

text \<open>
  The claim as first stated, that the operation returns "do not proceed" whenever a
  credential is missing, does not hold for a host that is reported as registered: the
  check comes first and the function returns \<open>True\<close>.
\<close>

theorem legacy_registration_missing_credentials_counterexample:
  "register config_register \<and> authmethod config_register = ''BASIC''
   \<and> \<not> truthy (username config_register) \<and> \<not> truthy (password config_register)
   \<and> fst (legacy_handle_registration config_register pconn0 host0) = Inr True"
  by (simp add: legacy_handle_registration_def config_register_def input_defs Let_def)

section \<open>Upload with no attempt configured\<close>

text \<open>
  C10. With a retry count of 0 the loop of either upload function has no iteration:
  no upload call is made, nothing is written, the host is as before, and the function
  returns \<open>None\<close> without any exception.
\<close>

theorem upload_zero_retries:
  assumes "retries config = 0"
  shows "upload loads config pconn tar_file content_type collection_duration s = (Inr None, s)
       \<and> legacy_upload_fun loads config pconn tar_file content_type collection_duration s
           = (Inr None, s)"
  using assms by (simp add: upload_def legacy_upload_fun_def)

text \<open>The theorem at a fresh host, with the modern and with the legacy protocol.\<close>

theorem upload_zero_retries_witness:
  "retries (config0\<lparr>retries := 0\<rparr>) = 0
   \<and> upload loads0 (config0\<lparr>retries := 0\<rparr>) pconn0 ''archive'' ''type'' None host0 = (Inr None, host0)
   \<and> upload loads0 (config0\<lparr>retries := 0, legacy_upload := True\<rparr>) pconn0 ''archive'' ''type'' None
        host0 = (Inr None, host0)
   \<and> lastupload_file host0 = False \<and> last_upload_results_file host0 = None
   \<and> attempts (trace host0) = 0"
  using upload_zero_retries [where config = "config0\<lparr>retries := 0\<rparr>" and loads = loads0
      and pconn = pconn0 and tar_file = "''archive''" and content_type = "''type''"
      and collection_duration = None and s = host0]
    upload_zero_retries [where config = "config0\<lparr>retries := 0, legacy_upload := True\<rparr>"
      and loads = loads0 and pconn = pconn0 and tar_file = "''archive''"
      and content_type = "''type''" and collection_duration = None and s = host0]
  by (simp add: config0_def host0_def attempts_def)

section \<open>The registration markers\<close>

text \<open>
  Neither upload function touches the registration markers: the block
  \<^verbatim>\<open>if not upload\<close> and both loop bodies leave them as they are, and so does the loop.
\<close>

lemma if_not_upload_markers:
  "if_not_upload config u tries s = Inr s2 \<Longrightarrow> markers s2 = markers s"
  by (auto simp: if_not_upload_def markers_def emit_def split: if_splits option.splits)

lemma upload_body_markers:
  "upload_body config pconn tar_file content_type collection_duration tries s = (fl, s')
     \<Longrightarrow> markers s' = markers s"
  by (auto simp: upload_body_def Let_def markers_def host_defs split: sum.splits
        dest!: if_not_upload_markers)

lemma legacy_upload_body_markers:
  "legacy_upload_body loads config pconn tar_file collection_duration tries (a, s) = (fl, (a', s'))
     \<Longrightarrow> markers s' = markers s"
  by (auto simp: legacy_upload_body_def Let_def markers_def host_defs
        split: sum.splits option.splits dest!: if_not_upload_markers)

lemma for_range_preserves:
  assumes "for_range body xs st = (fl, st')"
    and "\<And>i st fl st'. body i st = (fl, st') \<Longrightarrow> f st' = f st"
  shows "f st' = f st"
  using assms(1)
proof (induction xs arbitrary: st)
  case Nil
  then show ?case by simp
next
  case (Cons i xs)
  obtain fl1 st1 where b: "body i st = (fl1, st1)" by (cases "body i st")
  have f1: "f st1 = f st" using assms(2) [OF b] .
  show ?case
  proof (cases fl1)
    case Next
    with Cons.prems b have "for_range body xs st1 = (fl, st')" by simp
    from Cons.IH [OF this] f1 show ?thesis by simp
  qed (use Cons.prems b f1 in auto)
qed

lemma legacy_upload_body_markers_snd:
  "legacy_upload_body loads config pconn tar_file collection_duration tries st = (fl, st')
     \<Longrightarrow> markers (snd st') = markers (snd st)"
  using legacy_upload_body_markers [of loads config pconn tar_file collection_duration tries
      "fst st" "snd st" fl "fst st'" "snd st'"]
  by simp

lemma upload_markers:
  assumes u: "upload loads config pconn tar_file content_type collection_duration s = (r, s')"
  shows "markers s' = markers s"
proof (cases "legacy_upload config")
  case False
  obtain fl st where fr: "for_range (upload_body config pconn tar_file content_type collection_duration :: nat \<Rightarrow> host \<Rightarrow> 'a option flow \<times> host)
      [0..<nat (retries config)] s = (fl, st)"
    by (cases "for_range (upload_body config pconn tar_file content_type collection_duration :: nat \<Rightarrow> host \<Rightarrow> 'a option flow \<times> host)
      [0..<nat (retries config)] s")
  have "markers st = markers s"
    by (rule for_range_preserves [OF fr]) (rule upload_body_markers)
  moreover have "s' = st" using u fr False by (auto simp: upload_def split: flow.splits)
  ultimately show ?thesis by simp
next
  case True
  obtain fl a st where fr: "for_range (legacy_upload_body loads config pconn tar_file collection_duration)
      [0..<nat (retries config)] (None, s) = (fl, (a, st))"
    by (metis surj_pair)
  have "markers (snd (a, st)) = markers (snd (None :: 'a option, s))"
    by (rule for_range_preserves [OF fr, of "\<lambda>x. markers (snd x)"])
       (rule legacy_upload_body_markers_snd)
  moreover have "s' = st"
    using u fr True by (auto simp: upload_def legacy_upload_fun_def split: flow.splits)
  ultimately show ?thesis by simp
qed

text \<open>
  Registration writes at most the registered marker and unregistration at most the
  unregistered one; where a marker has been written the other one is absent at the end.
\<close>

lemma registration_markers:
  "case legacy_handle_registration config pconn s of
     (r, s') \<Rightarrow> WriteUnregisteredFile \<notin> set (new_events s s')
               \<and> (WriteRegisteredFile \<in> set (new_events s s')
                    \<longrightarrow> registered_file s' \<and> \<not> unregistered_file s')"
proof (cases "registration_check pconn")
  case (Inl e)
  then show ?thesis
    by (simp add: legacy_handle_registration_def host_defs new_events_def Let_def)
next
  case (Inr check)
  then show ?thesis
    by (cases "pconn_register pconn")
       (simp_all add: legacy_handle_registration_def host_defs new_events_def Let_def)
qed

lemma legacy_unregistration_markers:
  "case legacy_handle_unregistration config pconn s of
     (r, s') \<Rightarrow> WriteRegisteredFile \<notin> set (new_events s s')
               \<and> (WriteUnregisteredFile \<in> set (new_events s s')
                    \<longrightarrow> unregistered_file s' \<and> \<not> registered_file s')"
proof (cases "registration_check pconn")
  case (Inl e)
  then show ?thesis
    by (cases e)
       (simp_all add: legacy_handle_unregistration_def host_defs new_events_def Let_def)
next
  case (Inr check)
  then show ?thesis
    by (cases "pconn_unregister pconn")
       (simp_all add: legacy_handle_unregistration_def host_defs new_events_def Let_def)
qed

lemma unregistration_markers:
  "case handle_unregistration config pconn s of
     (r, s') \<Rightarrow> WriteRegisteredFile \<notin> set (new_events s s')
               \<and> (WriteUnregisteredFile \<in> set (new_events s s')
                    \<longrightarrow> unregistered_file s' \<and> \<not> registered_file s')"
proof (cases "legacy_upload config")
  case True
  then show ?thesis
    using legacy_unregistration_markers [where config = config and pconn = pconn and s = s]
    by (simp add: handle_unregistration_def)
next
  case False
  then show ?thesis
    by (cases "pconn_unregister pconn")
       (simp_all add: handle_unregistration_def host_defs new_events_def)
qed

text \<open>
  C9. The registered and the unregistered marker are mutually exclusive: right after
  the registered marker is written the unregistered marker is absent, and the other way
  round; this holds at the end of every operation of the client that writes a marker
  (legacy registration, unregistration with either protocol), and the upload leaves
  both markers as they are.
\<close>

theorem markers_mutually_exclusive:
  "registered_file (write_registered_file s) \<and> \<not> unregistered_file (write_registered_file s)
   \<and> unregistered_file (write_unregistered_file s) \<and> \<not> registered_file (write_unregistered_file s)
   \<and> (case legacy_handle_registration config pconn s of
        (r, s') \<Rightarrow> WriteUnregisteredFile \<notin> set (new_events s s')
                  \<and> (WriteRegisteredFile \<in> set (new_events s s')
                       \<longrightarrow> registered_file s' \<and> \<not> unregistered_file s'))
   \<and> (case handle_unregistration config pconn s of
        (r, s') \<Rightarrow> WriteRegisteredFile \<notin> set (new_events s s')
                  \<and> (WriteUnregisteredFile \<in> set (new_events s s')
                       \<longrightarrow> unregistered_file s' \<and> \<not> registered_file s'))
   \<and> (case upload loads config pconn tar_file content_type collection_duration s of
        (r, s') \<Rightarrow> registered_file s' = registered_file s
                  \<and> unregistered_file s' = unregistered_file s)"
proof -
  have w: "registered_file (write_registered_file s) \<and> \<not> unregistered_file (write_registered_file s)
     \<and> unregistered_file (write_unregistered_file s) \<and> \<not> registered_file (write_unregistered_file s)"
    by (simp add: host_defs)
  have up: "case upload loads config pconn tar_file content_type collection_duration s of
        (r, s') \<Rightarrow> registered_file s' = registered_file s
                  \<and> unregistered_file s' = unregistered_file s"
  proof -
    obtain r s' where e: "upload loads config pconn tar_file content_type collection_duration s = (r, s')"
      by (cases "upload loads config pconn tar_file content_type collection_duration s")
    from upload_markers [OF e] e show ?thesis by (simp add: markers_def)
  qed
  from w registration_markers [where config = config and pconn = pconn and s = s]
    unregistration_markers [where config = config and pconn = pconn and s = s] up
  show ?thesis by simp
qed

text \<open>
  The theorem at hosts where a marker is written: a registration of a host that
  carries the unregistered marker, and an unregistration of a registered host with
  either protocol.
\<close>

theorem markers_mutually_exclusive_witness:
  "(case legacy_handle_registration config_credentials pconn_unregistered host_unregistered of
      (r, s') \<Rightarrow> r = Inr True \<and> WriteRegisteredFile \<in> set (new_events host_unregistered s')
                \<and> registered_file s' \<and> \<not> unregistered_file s')
   \<and> (case handle_unregistration config0 pconn0 host_registered of
      (r, s') \<Rightarrow> r = Inr True \<and> WriteUnregisteredFile \<in> set (new_events host_registered s')
                \<and> unregistered_file s' \<and> \<not> registered_file s')
   \<and> (case handle_unregistration (config0\<lparr>legacy_upload := True\<rparr>) pconn0 host_registered of
      (r, s') \<Rightarrow> r = Inr True \<and> WriteUnregisteredFile \<in> set (new_events host_registered s')
                \<and> unregistered_file s' \<and> \<not> registered_file s')"
  using markers_mutually_exclusive [where config = config_credentials and pconn = pconn_unregistered
      and s = host_unregistered and loads = loads0 and tar_file = "[]" and content_type = "[]"
      and collection_duration = None]
    markers_mutually_exclusive [where config = config0 and pconn = pconn0
      and s = host_registered and loads = loads0 and tar_file = "[]" and content_type = "[]"
      and collection_duration = None]
    markers_mutually_exclusive [where config = "config0\<lparr>legacy_upload := True\<rparr>" and pconn = pconn0
      and s = host_registered and loads = loads0 and tar_file = "[]" and content_type = "[]"
      and collection_duration = None]
  by (simp add: legacy_handle_registration_def handle_unregistration_def
        legacy_handle_unregistration_def config_credentials_def pconn_unregistered_def
        host_unregistered_def input_defs host_defs new_events_def Let_def)

end
